theory Spec2Isabelle
  imports Main "HOL-Library.Sublist" "HOL-Library.List_Lexorder" "HOL-Library.Char_ord"
begin

section \<open>Exceptions and Python string primitives\<close>

text \<open>
  Every exception that the modelled functions raise, catch or let escape is a value of
  \<open>error\<close>; a function that may raise returns \<open>error + 'a\<close> with \<open>Inl\<close> for the
  exception. \<open>ExecError\<close> stands for any exception raised by \<^verbatim>\<open>exec\<close> on a text that is
  not of the form the registry writer emits.
\<close>

datatype error =
    FileNotFoundError
  | PermissionError
  | CalledProcessError
  | AutogeneratedFileError
  | InfoFileError
  | CleanUpError
  | KeyError
  | IndexError
  | TypeError
  | AttributeError
  | ValueError
  | GradebookError
  | ExecError

definition newline :: char where
  "newline = CHR 0x0A"

definition squote :: char where
  "squote = CHR 0x27"

definition dquote :: char where
  "dquote = CHR 0x22"

definition backslash :: char where
  "backslash = CHR 0x5C"

text \<open>
  \<^verbatim>\<open>s.replace(old, new)\<close>: the occurrences of \<open>old\<close> are found from the left and do not
  overlap. For an empty \<open>old\<close> Python puts \<open>new\<close> before every character and at the end.
\<close>

fun replace_scan :: "nat \<Rightarrow> string \<Rightarrow> string \<Rightarrow> string \<Rightarrow> string" where
  "replace_scan skip old new [] = []"
| "replace_scan (Suc k) old new (c # cs) = replace_scan k old new cs"
| "replace_scan 0 old new (c # cs) =
     (if prefix old (c # cs) then new @ replace_scan (length old - 1) old new cs
      else c # replace_scan 0 old new cs)"

definition replace_py :: "string \<Rightarrow> string \<Rightarrow> string \<Rightarrow> string" where
  "replace_py old new s =
     (if old = [] then new @ concat (map (\<lambda>c. c # new) s) else replace_scan 0 old new s)"

text \<open>\<^verbatim>\<open>sep.join(xs)\<close>.\<close>

fun join_py :: "string \<Rightarrow> string list \<Rightarrow> string" where
  "join_py sep [] = []"
| "join_py sep [x] = x"
| "join_py sep (x # y # ys) = x @ sep @ join_py sep (y # ys)"

section \<open>The values of the registry and their \<^verbatim>\<open>str\<close>\<close>

text \<open>
  The registry holds services and roles (lists of dictionaries) and groups (a dictionary
  from group names to member lists). The values are modelled as the literals built from
  \<^verbatim>\<open>None\<close>, booleans, integers, strings, lists and dictionaries with string keys; a
  character is a code point below 256. A dictionary is an association list in insertion
  order.
\<close>

datatype pyval =
    PNone
  | PBool bool
  | PInt int
  | PStr string
  | PList "pyval list"
  | PDict "(string \<times> pyval) list"

definition hexdigit :: "nat \<Rightarrow> char" where
  "hexdigit n = ''0123456789abcdef'' ! (n mod 16)"

text \<open>\<^verbatim>\<open>str.isprintable\<close> on the code points below 256.\<close>

definition py_printable :: "char \<Rightarrow> bool" where
  "py_printable c =
     (let n = (of_char c :: nat) in (32 \<le> n \<and> n < 127) \<or> (161 \<le> n \<and> n \<noteq> 173))"

text \<open>The escape of one character inside a string literal quoted with \<open>q\<close>.\<close>

definition esc_char :: "char \<Rightarrow> char \<Rightarrow> string" where
  "esc_char q c =
     (if c = q \<or> c = backslash then [backslash, c]
      else if c = CHR 0x09 then [backslash, CHR ''t'']
      else if c = newline then [backslash, CHR ''n'']
      else if c = CHR 0x0D then [backslash, CHR ''r'']
      else if \<not> py_printable c then
        [backslash, CHR ''x'', hexdigit ((of_char c :: nat) div 16), hexdigit ((of_char c :: nat) mod 16)]
      else [c])"

text \<open>
  \<^verbatim>\<open>repr\<close> of a string: single quotes, unless the string has a single quote and no
  double quote.
\<close>

definition repr_quote :: "string \<Rightarrow> char" where
  "repr_quote s = (if squote \<in> set s \<and> dquote \<notin> set s then dquote else squote)"

definition repr_str :: "string \<Rightarrow> string" where
  "repr_str s = (let q = repr_quote s in q # concat (map (esc_char q) s) @ [q])"

definition digit_char :: "nat \<Rightarrow> char" where
  "digit_char n = ''0123456789'' ! (n mod 10)"

function dec_nat :: "nat \<Rightarrow> string" where
  "dec_nat n = (if n < 10 then [digit_char n] else dec_nat (n div 10) @ [digit_char (n mod 10)])"
  by pat_completeness auto
termination
  by (relation "measure (\<lambda>n. n)") auto

declare dec_nat.simps [simp del]

definition repr_int :: "int \<Rightarrow> string" where
  "repr_int i = (if i < 0 then CHR ''-'' # dec_nat (nat (- i)) else dec_nat (nat i))"

fun py_repr :: "pyval \<Rightarrow> string" where
  "py_repr PNone = ''None''"
| "py_repr (PBool b) = (if b then ''True'' else ''False'')"
| "py_repr (PInt i) = repr_int i"
| "py_repr (PStr s) = repr_str s"
| "py_repr (PList vs) = ''['' @ join_py '', '' (map py_repr vs) @ '']''"
| "py_repr (PDict kvs) =
     ''{'' @ join_py '', '' (map (\<lambda>(k, v). repr_str k @ '': '' @ py_repr v) kvs) @ ''}''"

section \<open>Reading the registry text back: the fragment of \<^verbatim>\<open>exec\<close> that is needed\<close>

text \<open>
  \<^verbatim>\<open>read_autogenerated_config\<close> hands the rewritten file text to \<^verbatim>\<open>exec\<close>. The
  interpreter is modelled for the statements that \<^verbatim>\<open>write_autogenerated_config\<close> emits:
  comment lines, empty lines, \<^verbatim>\<open>services.append(v)\<close>, \<^verbatim>\<open>roles.append(v)\<close> and
  \<^verbatim>\<open>groups.update(d)\<close>, where \<open>v\<close> and \<open>d\<close> are literals in the form \<^verbatim>\<open>str\<close> prints
  them. On every other text the model answers \<open>ExecError\<close>.
\<close>

definition hexval :: "char \<Rightarrow> nat option" where
  "hexval c =
     (let n = (of_char c :: nat) in
      if 48 \<le> n \<and> n \<le> 57 then Some (n - 48)
      else if 97 \<le> n \<and> n \<le> 102 then Some (n - 87)
      else if 65 \<le> n \<and> n \<le> 70 then Some (n - 55)
      else None)"

text \<open>The body of a string literal after its opening quote \<open>q\<close>, up to the closing quote.\<close>

fun parse_str_body :: "char \<Rightarrow> string \<Rightarrow> (string \<times> string) option" where
  "parse_str_body q [] = None"
| "parse_str_body q [c] = (if c = q then Some ([], []) else None)"
| "parse_str_body q (c # d # cs) =
     (if c = q then Some ([], d # cs)
      else if c = newline then None
      else if c = backslash then
        (if d = backslash \<or> d = squote \<or> d = dquote then
           map_option (apfst ((#) d)) (parse_str_body q cs)
         else if d = CHR ''t'' then map_option (apfst ((#) (CHR 0x09))) (parse_str_body q cs)
         else if d = CHR ''n'' then map_option (apfst ((#) newline)) (parse_str_body q cs)
         else if d = CHR ''r'' then map_option (apfst ((#) (CHR 0x0D))) (parse_str_body q cs)
         else if d = CHR ''x'' then
           (case cs of
              h # l # cs' \<Rightarrow>
                (case (hexval h, hexval l) of
                   (Some a, Some b) \<Rightarrow>
                     map_option (apfst ((#) (char_of (16 * a + b)))) (parse_str_body q cs')
                 | _ \<Rightarrow> None)
            | _ \<Rightarrow> None)
         else None)
      else map_option (apfst ((#) c)) (parse_str_body q (d # cs)))"

definition is_digit :: "char \<Rightarrow> bool" where
  "is_digit c = (let n = (of_char c :: nat) in 48 \<le> n \<and> n \<le> 57)"

definition digit_val :: "char \<Rightarrow> nat" where
  "digit_val c = (of_char c :: nat) - 48"

definition parse_nat :: "string \<Rightarrow> (nat \<times> string) option" where
  "parse_nat s =
     (let ds = takeWhile is_digit s in
      if ds = [] \<or> (1 < length ds \<and> hd ds = CHR ''0'') then None
      else Some (foldl (\<lambda>a d. 10 * a + digit_val d) 0 ds, dropWhile is_digit s))"

text \<open>
  \<^verbatim>\<open>d[k] = v\<close> on an insertion-ordered dictionary, and \<^verbatim>\<open>d.update(kvs)\<close>; a dictionary
  literal with a repeated key keeps the last value at the first position.
\<close>

definition dict_set :: "(string \<times> pyval) list \<Rightarrow> string \<Rightarrow> pyval \<Rightarrow> (string \<times> pyval) list" where
  "dict_set d k v =
     (if k \<in> fst ` set d then map (\<lambda>(k', v'). if k' = k then (k', v) else (k', v')) d
      else d @ [(k, v)])"

definition dict_update :: "(string \<times> pyval) list \<Rightarrow> (string \<times> pyval) list \<Rightarrow> (string \<times> pyval) list" where
  "dict_update d kvs = foldl (\<lambda>d' (k, v). dict_set d' k v) d kvs"

text \<open>
  The literal parser. The first argument bounds the number of nested calls; a caller
  passes the length of the text.
\<close>

fun parse_val :: "nat \<Rightarrow> string \<Rightarrow> (pyval \<times> string) option"
  and parse_items :: "nat \<Rightarrow> string \<Rightarrow> (pyval list \<times> string) option"
  and parse_pairs :: "nat \<Rightarrow> string \<Rightarrow> ((string \<times> pyval) list \<times> string) option" where
  "parse_val 0 s = None"
| "parse_val (Suc n) s =
     (if prefix ''None'' s then Some (PNone, drop 4 s)
      else if prefix ''True'' s then Some (PBool True, drop 4 s)
      else if prefix ''False'' s then Some (PBool False, drop 5 s)
      else if prefix ''[]'' s then Some (PList [], drop 2 s)
      else if prefix ''['' s then map_option (apfst PList) (parse_items n (drop 1 s))
      else if prefix ''{}'' s then Some (PDict [], drop 2 s)
      else if prefix ''{'' s then
        map_option (apfst (\<lambda>kvs. PDict (dict_update [] kvs))) (parse_pairs n (drop 1 s))
      else if prefix [squote] s \<or> prefix [dquote] s then
        map_option (apfst PStr) (parse_str_body (hd s) (tl s))
      else if prefix ''-'' s then map_option (apfst (\<lambda>k. PInt (- int k))) (parse_nat (drop 1 s))
      else map_option (apfst (\<lambda>k. PInt (int k))) (parse_nat s))"
| "parse_items 0 s = None"
| "parse_items (Suc n) s =
     (case parse_val n s of
        None \<Rightarrow> None
      | Some (v, r) \<Rightarrow>
          if prefix '']'' r then Some ([v], drop 1 r)
          else if prefix '', '' r then map_option (apfst ((#) v)) (parse_items n (drop 2 r))
          else None)"
| "parse_pairs 0 s = None"
| "parse_pairs (Suc n) s =
     (if prefix [squote] s \<or> prefix [dquote] s then
        (case parse_str_body (hd s) (tl s) of
           None \<Rightarrow> None
         | Some (k, r) \<Rightarrow>
             if prefix '': '' r then
               (case parse_val n (drop 2 r) of
                  None \<Rightarrow> None
                | Some (v, r') \<Rightarrow>
                    if prefix ''}'' r' then Some ([(k, v)], drop 1 r')
                    else if prefix '', '' r' then
                      map_option (apfst ((#) (k, v))) (parse_pairs n (drop 2 r'))
                    else None)
             else None)
      else None)"

type_synonym registry = "pyval list \<times> pyval list \<times> (string \<times> pyval) list"

text \<open>One statement line, run on the three local variables.\<close>

definition exec_line :: "string \<Rightarrow> registry \<Rightarrow> error + registry" where
  "exec_line l reg =
     (case reg of (services, roles, groups) \<Rightarrow>
        if l = [] \<or> prefix ''#'' l then Inr (services, roles, groups)
        else if prefix ''services.append('' l then
          (case parse_val (length l) (drop 16 l) of
             Some (v, r) \<Rightarrow> if r = '')'' then Inr (services @ [v], roles, groups) else Inl ExecError
           | None \<Rightarrow> Inl ExecError)
        else if prefix ''roles.append('' l then
          (case parse_val (length l) (drop 13 l) of
             Some (v, r) \<Rightarrow> if r = '')'' then Inr (services, roles @ [v], groups) else Inl ExecError
           | None \<Rightarrow> Inl ExecError)
        else if prefix ''groups.update('' l then
          (case parse_val (length l) (drop 14 l) of
             Some (PDict kvs, r) \<Rightarrow>
               if r = '')'' then Inr (services, roles, dict_update groups kvs) else Inl ExecError
           | _ \<Rightarrow> Inl ExecError)
        else Inl ExecError)"

fun exec_lines :: "string list \<Rightarrow> registry \<Rightarrow> error + registry" where
  "exec_lines [] reg = Inr reg"
| "exec_lines (l # ls) reg =
     (case exec_line l reg of Inl e \<Rightarrow> Inl e | Inr reg' \<Rightarrow> exec_lines ls reg')"

text \<open>The source lines of a text: split at every newline character.\<close>

fun split_lines :: "string \<Rightarrow> string \<Rightarrow> string list" where
  "split_lines acc [] = (if acc = [] then [] else [acc])"
| "split_lines acc (c # cs) =
     (if c = newline then acc # split_lines [] cs else split_lines (acc @ [c]) cs)"

text \<open>
  \<^verbatim>\<open>services, roles, groups = [], [], {}\<close> followed by \<^verbatim>\<open>exec(config_code)\<close>: the
  appended and updated objects are the ones the function returns.
\<close>

definition py_exec :: "string \<Rightarrow> error + registry" where
  "py_exec config_code = exec_lines (split_lines [] config_code) ([], [], [])"

section \<open>The registry store\<close>

text \<open>
  The part of the machine that the store touches: the regular files by path, with the
  text of each and whether the process may read and write it; which missing files the
  process may create; which external commands exit with a non-zero status; the commands
  run so far; for each gradebook database either the exception that opening it raises or
  the ids of its students; and the log.
\<close>

record file_entry =
  contents :: string
  readable :: bool
  writable :: bool

record world =
  files :: "string \<rightharpoonup> file_entry"
  creatable :: "string \<Rightarrow> bool"
  run_fails :: "string list \<Rightarrow> bool"
  executed :: "string list list"
  gradebooks :: "string \<Rightarrow> error + string list"
  log :: "(string \<times> string) list"

definition logging :: "string \<Rightarrow> string \<Rightarrow> world \<Rightarrow> world" where
  "logging level msg w = w\<lparr>log := log w @ [(level, msg)]\<rparr>"

text \<open>\<^verbatim>\<open>open(file=path, mode='r')\<close> followed by \<^verbatim>\<open>read()\<close>.\<close>

definition open_read :: "string \<Rightarrow> world \<Rightarrow> error + string" where
  "open_read path w =
     (case files w path of
        None \<Rightarrow> Inl FileNotFoundError
      | Some f \<Rightarrow> if readable f then Inr (contents f) else Inl PermissionError)"

text \<open>\<^verbatim>\<open>open(file=path, mode='w')\<close>: the file is created or truncated when it opens.\<close>

definition open_write :: "string \<Rightarrow> world \<Rightarrow> error + world" where
  "open_write path w =
     (case files w path of
        None \<Rightarrow>
          if creatable w path then
            Inr (w\<lparr>files := (files w)(path \<mapsto> \<lparr>contents = [], readable = True, writable = True\<rparr>)\<rparr>)
          else Inl PermissionError
      | Some f \<Rightarrow>
          if writable f then Inr (w\<lparr>files := (files w)(path \<mapsto> f\<lparr>contents := []\<rparr>)\<rparr>)
          else Inl PermissionError)"

definition file_write :: "string \<Rightarrow> string \<Rightarrow> world \<Rightarrow> world" where
  "file_write path text w =
     (case files w path of
        None \<Rightarrow> w
      | Some f \<Rightarrow> w\<lparr>files := (files w)(path \<mapsto> f\<lparr>contents := contents f @ text\<rparr>)\<rparr>)"

text \<open>
  What a command does to the files when it succeeds: \<^verbatim>\<open>chmod 600\<close> makes the file
  readable and writable for the owner, \<^verbatim>\<open>rm\<close> removes a file and \<^verbatim>\<open>rm -rf\<close> everything
  below a directory. The other commands act outside the modelled files.
\<close>

definition cmd_effect :: "string list \<Rightarrow> world \<Rightarrow> world" where
  "cmd_effect cmd w =
     (if length cmd = 3 \<and> cmd ! 0 = ''chmod'' \<and> cmd ! 1 = ''600'' then
        (case files w (cmd ! 2) of
           None \<Rightarrow> w
         | Some f \<Rightarrow> w\<lparr>files := (files w)(cmd ! 2 \<mapsto> f\<lparr>readable := True, writable := True\<rparr>)\<rparr>)
      else if length cmd = 2 \<and> cmd ! 0 = ''rm'' then w\<lparr>files := (files w)(cmd ! 1 := None)\<rparr>
      else if length cmd = 3 \<and> cmd ! 0 = ''rm'' \<and> cmd ! 1 = ''-rf'' then
        w\<lparr>files := (\<lambda>p. if prefix (cmd ! 2) p then None else files w p)\<rparr>
      else w)"

text \<open>
  \<^verbatim>\<open>subprocess.run(cmd, check=...)\<close>: with \<^verbatim>\<open>check=True\<close> a non-zero exit status raises
  \<open>CalledProcessError\<close>; without it the status is dropped.
\<close>

definition run :: "string list \<Rightarrow> bool \<Rightarrow> world \<Rightarrow> (error + unit) \<times> world" where
  "run cmd check w =
     (let w' = w\<lparr>executed := executed w @ [cmd]\<rparr> in
      if run_fails w cmd then (if check then (Inl CalledProcessError, w') else (Inr (), w'))
      else (Inr (), cmd_effect cmd w'))"

text \<open>The text that \<^verbatim>\<open>write_autogenerated_config\<close> composes.\<close>

definition compose_config_code :: "pyval list \<Rightarrow> pyval list \<Rightarrow> (string \<times> pyval) list \<Rightarrow> string" where
  "compose_config_code services roles groups =
     ''# Autogenerated nbgrader course configuration (DO NOT MODIFY)'' @ [newline, newline]
     @ ''c = get_config()'' @ [newline, newline]
     @ ''# Services'' @ [newline]
     @ concat (map (\<lambda>service. ''c.JupyterHub.services.append('' @ py_repr service @ '')'' @ [newline]) services)
     @ [newline]
     @ ''# Roles'' @ [newline]
     @ concat (map (\<lambda>role. ''c.JupyterHub.load_roles.append('' @ py_repr role @ '')'' @ [newline]) roles)
     @ [newline]
     @ ''# Groups'' @ [newline]
     @ ''c.JupyterHub.load_groups.update('' @ py_repr (PDict groups) @ '')'' @ [newline]"

text \<open>
  \<^verbatim>\<open>write_autogenerated_config\<close>. The \<^verbatim>\<open>try\<close> block opens the file for writing, writes
  the text and runs \<^verbatim>\<open>chmod 600\<close> with \<^verbatim>\<open>check=True\<close>; \<open>CalledProcessError\<close> is logged
  and turned into \<open>AutogeneratedFileError\<close>, \<open>PermissionError\<close> is logged and dropped.
\<close>

definition write_handlers :: "error \<Rightarrow> world \<Rightarrow> (error + unit) \<times> world" where
  "write_handlers e w =
     (if e = CalledProcessError then
        (Inl AutogeneratedFileError, logging ''ERROR'' ''Command cannot be executed!'' w)
      else if e = PermissionError then
        (Inr (), logging ''DEBUG'' ''Autogenerated services files not readable!'' w)
      else (Inl e, w))"

definition write_autogenerated_config ::
  "string \<Rightarrow> pyval list \<Rightarrow> pyval list \<Rightarrow> (string \<times> pyval) list \<Rightarrow> world \<Rightarrow> (error + unit) \<times> world" where
  "write_autogenerated_config autogenerated_file_path services roles groups w0 =
     (let w1 = logging ''DEBUG'' ''Writing autogenerated service configuration.'' w0;
          config_code = compose_config_code services roles groups
      in case open_write autogenerated_file_path w1 of
           Inl e \<Rightarrow> write_handlers e w1
         | Inr w2 \<Rightarrow>
             (case run [''chmod'', ''600'', autogenerated_file_path] True
                     (file_write autogenerated_file_path config_code w2) of
                (Inl e, w3) \<Rightarrow> write_handlers e w3
              | (Inr u, w3) \<Rightarrow> (Inr (), w3)))"

text \<open>The four textual rewrites and the \<^verbatim>\<open>exec\<close> at the end of \<^verbatim>\<open>read_autogenerated_config\<close>.\<close>

definition extract_registry :: "string \<Rightarrow> error + registry" where
  "extract_registry config_code =
     (let c1 = replace_py ''c = get_config()'' [] config_code;
          c2 = replace_py ''c.JupyterHub.services'' ''services'' c1;
          c3 = replace_py ''c.JupyterHub.load_roles'' ''roles'' c2;
          c4 = replace_py ''c.JupyterHub.load_groups'' ''groups'' c3
      in py_exec c4)"

text \<open>
  \<^verbatim>\<open>read_autogenerated_config\<close>. The \<^verbatim>\<open>try\<close> block only opens and reads the file. An
  exception raised inside a handler leaves the \<^verbatim>\<open>try\<close> statement: the other
  \<^verbatim>\<open>except\<close> clauses of the same statement do not see it.
\<close>

definition read_autogenerated_config :: "string \<Rightarrow> world \<Rightarrow> (error + registry) \<times> world" where
  "read_autogenerated_config autogenerated_file_path w0 =
     (case open_read autogenerated_file_path w0 of
        Inr config_code \<Rightarrow>
          (let w1 = logging ''DEBUG'' ''Reading autogenerated service configuration.'' w0;
               w2 = logging ''DEBUG'' ''Extracting services, roles and groups from file.'' w1
           in (extract_registry config_code, w2))
      | Inl e \<Rightarrow>
          if e = FileNotFoundError then
            (let w1 = logging ''DEBUG'' ''No autogenerated service file found! A new one will be created.'' w0
             in case write_autogenerated_config autogenerated_file_path [] [] [] w1 of
                  (Inl e', w2) \<Rightarrow> (Inl e', w2)
                | (Inr u, w2) \<Rightarrow>
                    (let w3 = logging ''DEBUG'' ''Extracting services, roles and groups from file.'' w2
                     in (extract_registry [], w3)))
          else if e = PermissionError then
            (let w1 = logging ''DEBUG'' ''Autogenerated services files not readable!'' w0
             in case run [''chmod'', ''600'', autogenerated_file_path] True w1 of
                  (Inl e', w2) \<Rightarrow> (Inl e', w2)
                | (Inr u, w2) \<Rightarrow>
                    (case open_read autogenerated_file_path w2 of
                       Inl e' \<Rightarrow> (Inl e', w2)
                     | Inr config_code \<Rightarrow>
                         (let w3 = logging ''DEBUG'' ''Reading autogenerated service configuration.'' w2;
                              w4 = logging ''DEBUG'' ''Extracting services, roles and groups from file.'' w3
                          in (extract_registry config_code, w4))))
          else if e = CalledProcessError then
            (Inl AutogeneratedFileError, logging ''ERROR'' ''Command cannot be executed!'' w0)
          else (Inl e, w0))"

section \<open>The enumerations of \<^verbatim>\<open>models/enums.py\<close>\<close>

text \<open>The members of \<^verbatim>\<open>Subset\<close> carry the prefix \<open>Subset_\<close> (\<open>ALL\<close> is reserved syntax).\<close>

datatype Subset = Subset_ALL | Subset_ACTIVE | Subset_OTHER

datatype Content = COURSES | ASSIGNMENTS | PROBLEMS

text \<open>
  The attribute access \<^verbatim>\<open>Subset.NAME\<close>: the class has the three members above, and any
  other name raises \<open>AttributeError\<close>.
\<close>

definition Subset_attr :: "string \<Rightarrow> error + Subset" where
  "Subset_attr name =
     (if name = ''ALL'' then Inr Subset_ALL
      else if name = ''ACTIVE'' then Inr Subset_ACTIVE
      else if name = ''OTHER'' then Inr Subset_OTHER
      else Inl AttributeError)"

definition bind_err :: "error + 'a \<Rightarrow> ('a \<Rightarrow> error + 'b) \<Rightarrow> error + 'b" where
  "bind_err m f = (case m of Inl e \<Rightarrow> Inl e | Inr x \<Rightarrow> f x)"

text \<open>A loop that collects one result per element and stops at the first exception.\<close>

fun map_err :: "('a \<Rightarrow> error + 'b) \<Rightarrow> 'a list \<Rightarrow> error + 'b list" where
  "map_err f [] = Inr []"
| "map_err f (x # xs) =
     bind_err (f x) (\<lambda>y. bind_err (map_err f xs) (\<lambda>ys. Inr (y # ys)))"

section \<open>More string primitives\<close>

text \<open>\<^verbatim>\<open>s.lstrip(chars)\<close> removes leading characters as long as they occur in \<open>chars\<close>.\<close>

definition lstrip_py :: "string \<Rightarrow> string \<Rightarrow> string" where
  "lstrip_py chars s = dropWhile (\<lambda>c. c \<in> set chars) s"

definition rstrip_py :: "string \<Rightarrow> string \<Rightarrow> string" where
  "rstrip_py chars s = rev (dropWhile (\<lambda>c. c \<in> set chars) (rev s))"

definition strip_py :: "string \<Rightarrow> string \<Rightarrow> string" where
  "strip_py chars s = rstrip_py chars (lstrip_py chars s)"

definition removeprefix_py :: "string \<Rightarrow> string \<Rightarrow> string" where
  "removeprefix_py p s = (if prefix p s then drop (length p) s else s)"

definition removesuffix_py :: "string \<Rightarrow> string \<Rightarrow> string" where
  "removesuffix_py x s = (if x \<noteq> [] \<and> suffix x s then take (length s - length x) s else s)"

text \<open>\<^verbatim>\<open>s.split(sep)\<close> for a non-empty separator; the first argument is the piece read so far.\<close>

fun split_scan :: "nat \<Rightarrow> string \<Rightarrow> string \<Rightarrow> string \<Rightarrow> string list" where
  "split_scan skip sep acc [] = [acc]"
| "split_scan (Suc k) sep acc (c # cs) = split_scan k sep acc cs"
| "split_scan 0 sep acc (c # cs) =
     (if prefix sep (c # cs) then acc # split_scan (length sep - 1) sep [] cs
      else split_scan 0 sep (acc @ [c]) cs)"

definition split_py :: "string \<Rightarrow> string \<Rightarrow> string list" where
  "split_py sep s = split_scan 0 sep [] s"

text \<open>
  The subscript \<^verbatim>\<open>xs[i]\<close> of a list: positions from the front for \<open>i\<close> at least zero,
  from the back for \<open>i\<close> below zero, and \<open>IndexError\<close> outside of both ranges.
\<close>

definition index_py :: "'a list \<Rightarrow> int \<Rightarrow> error + 'a" where
  "index_py xs i =
     (if 0 \<le> i \<and> i < int (length xs) then Inr (xs ! nat i)
      else if i < 0 \<and> - int (length xs) \<le> i then Inr (xs ! nat (int (length xs) + i))
      else Inl IndexError)"

section \<open>The directory tree and the Path Resolver\<close>

text \<open>
  A directory carries the numeric id of its owning group and its entries by name; a
  path is the list of its components below the root, and \<open>path_str\<close> is the text that
  \<^verbatim>\<open>str\<close> gives for it. Symbolic links are not modelled.
\<close>

datatype node = File | Dir nat "(string \<times> node) list"

fun lookup :: "node \<Rightarrow> string list \<Rightarrow> node option" where
  "lookup n [] = Some n"
| "lookup File (x # xs) = None"
| "lookup (Dir g entries) (x # xs) =
     (case map_of entries x of None \<Rightarrow> None | Some n \<Rightarrow> lookup n xs)"

definition exists :: "node \<Rightarrow> string list \<Rightarrow> bool" where
  "exists r p = (lookup r p \<noteq> None)"

definition is_dir :: "node \<Rightarrow> string list \<Rightarrow> bool" where
  "is_dir r p = (case lookup r p of Some (Dir g entries) \<Rightarrow> True | _ \<Rightarrow> False)"

definition is_file :: "node \<Rightarrow> string list \<Rightarrow> bool" where
  "is_file r p = (case lookup r p of Some File \<Rightarrow> True | _ \<Rightarrow> False)"

definition entries_of :: "node \<Rightarrow> string list \<Rightarrow> string list" where
  "entries_of r p = (case lookup r p of Some (Dir g entries) \<Rightarrow> map fst entries | _ \<Rightarrow> [])"

definition path_str :: "string list \<Rightarrow> string" where
  "path_str p = (if p = [] then ''/'' else concat (map (\<lambda>c. CHR ''/'' # c) p))"

text \<open>\<^verbatim>\<open>p.glob('*/')\<close>: the entries of \<open>p\<close> that are directories.\<close>

definition glob_dirs :: "node \<Rightarrow> string list \<Rightarrow> string list list" where
  "glob_dirs r p = filter (is_dir r) (map (\<lambda>name. p @ [name]) (entries_of r p))"

text \<open>Everything below a node, as paths relative to it.\<close>

fun walk :: "node \<Rightarrow> string list list" where
  "walk File = []"
| "walk (Dir g entries) =
     concat (map (\<lambda>(name, n). [name] # map ((#) name) (walk n)) entries)"

text \<open>
  \<^verbatim>\<open>p.rglob('*.ipynb')\<close>: every file or directory at any depth below \<open>p\<close> whose name
  ends in \<^verbatim>\<open>.ipynb\<close>. A leading dot is not special for \<^verbatim>\<open>pathlib\<close> patterns.
\<close>

definition rglob_ipynb :: "node \<Rightarrow> string list \<Rightarrow> string list list" where
  "rglob_ipynb r p =
     (case lookup r p of
        None \<Rightarrow> []
      | Some n \<Rightarrow> map ((@) p) (filter (\<lambda>q. suffix ''.ipynb'' (last q)) (walk n)))"

text \<open>\<^verbatim>\<open>any(part.name.startswith('.') for part in path.parents)\<close>.\<close>

definition hidden_parent :: "string list \<Rightarrow> bool" where
  "hidden_parent p = list_ex (prefix ''.'') (butlast p)"

text \<open>
  What the resolver and the name generator read besides the registry: the directory
  tree, the group database (\<^verbatim>\<open>grp.getgrgid\<close>), and the JSON files (\<^verbatim>\<open>load_json\<close> of a
  course's \<^verbatim>\<open>info.json\<close>), each either an exception or the fields of the object.
\<close>

record machine =
  root :: node
  group_db :: "nat \<rightharpoonup> string"
  json_at :: "string \<Rightarrow> error + (string \<rightharpoonup> string)"

text \<open>The launch snapshot of a user, as far as \<^verbatim>\<open>make_course_id\<close> reads it.\<close>

record resource_link =
  rl_id :: "string option"
  rl_title :: "string option"

record lti_state =
  deployment_id :: "string option"
  resource_link_claim :: "resource_link option"
  context_title :: "string option"
  target_link_uri :: "string option"

definition fmt :: "string option \<Rightarrow> string" where
  "fmt x = (case x of None \<Rightarrow> ''None'' | Some s \<Rightarrow> s)"

definition truthy_str :: "string option \<Rightarrow> bool" where
  "truthy_str x = (case x of None \<Rightarrow> False | Some s \<Rightarrow> s \<noteq> [])"

text \<open>
  \<^verbatim>\<open>make_course_id\<close>. The first argument is \<^verbatim>\<open>hashlib.shake_256(...).hexdigest(8)\<close> as a
  function of the hashed text.
\<close>

definition make_course_id ::
  "(string \<Rightarrow> string) \<Rightarrow> lti_state \<Rightarrow> error + (string \<times> string \<times> string \<times> string)" where
  "make_course_id shake_256_hex8 lti =
     (case resource_link_claim lti of
        None \<Rightarrow> Inl AttributeError
      | Some rl \<Rightarrow>
          (let dep = (case deployment_id lti of None \<Rightarrow> ''0'' | Some d \<Rightarrow> d);
               course_id = ''c-'' @ shake_256_hex8 (dep @ ''-'' @ fmt (rl_id rl));
               grader_user = take 32 course_id;
               course_title =
                 (if truthy_str (rl_title rl) \<and> truthy_str (context_title lti) then
                    fmt (context_title lti) @ '' - '' @ fmt (rl_title rl)
                  else if truthy_str (rl_title rl) then fmt (rl_title rl)
                  else if truthy_str (context_title lti) then fmt (context_title lti)
                  else ''No title available'');
               course_title_long = replace_py [squote] [] (course_title @ '' ('' @ course_id @ '')'');
               course_title_short = replace_py [squote] [] course_title
           in Inr (course_id, course_title_long, course_title_short, grader_user)))"

text \<open>
  The list \<^verbatim>\<open>owned_groups\<close> of \<^verbatim>\<open>get_active_paths\<close>: for every group of the dictionary
  that has the user among its members, \<^verbatim>\<open>group.lstrip('formgrade-')\<close>.
\<close>

definition owned_groups :: "string \<Rightarrow> (string \<times> string list) list \<Rightarrow> string list" where
  "owned_groups user_name groups =
     map (\<lambda>(group, members). lstrip_py ''formgrade-'' group)
       (filter (\<lambda>(group, members). user_name \<in> set members) groups)"

text \<open>
  The home directories that \<^verbatim>\<open>get_active_paths\<close> starts from: the directories in
  \<^verbatim>\<open>/home\<close> whose group owner is one of the owned groups.
\<close>

definition base_paths_of :: "machine \<Rightarrow> string list \<Rightarrow> error + string list list" where
  "base_paths_of m owned =
     (if \<not> is_dir (root m) [''home''] then Inl FileNotFoundError
      else bind_err
        (map_err
           (\<lambda>name.
              (case lookup (root m) [''home'', name] of
                 Some (Dir gid entries) \<Rightarrow>
                   (case group_db m gid of
                      None \<Rightarrow> Inl KeyError
                    | Some gname \<Rightarrow> Inr (if gname \<in> set owned then [[''home'', name]] else []))
               | _ \<Rightarrow> Inr []))
           (entries_of (root m) [''home'']))
        (\<lambda>found. Inr (concat found)))"

text \<open>The candidate paths of one home directory, before the filter.\<close>

definition candidate_paths :: "node \<Rightarrow> Content \<Rightarrow> string list \<Rightarrow> string list list" where
  "candidate_paths r content base_path =
     (case content of
        COURSES \<Rightarrow>
          (let specific_path = base_path @ [''course_data'']
           in if exists r specific_path then [specific_path] else [])
      | ASSIGNMENTS \<Rightarrow>
          (let specific_path = base_path @ [''course_data'', ''source'']
           in if exists r specific_path then glob_dirs r specific_path else [])
      | PROBLEMS \<Rightarrow>
          (let specific_path = base_path @ [''course_data'', ''source'']
           in if exists r specific_path then rglob_ipynb r specific_path else []))"

text \<open>
  The condition of the generator expression, with Python's precedence:
  \<^verbatim>\<open>a or (b and c) and not d\<close> is \<^verbatim>\<open>a or ((b and c) and (not d))\<close>.
\<close>

definition keep_active :: "node \<Rightarrow> Content \<Rightarrow> string list \<Rightarrow> bool" where
  "keep_active r content path =
     (is_dir r path \<or> ((content = PROBLEMS \<and> is_file r path) \<and> \<not> hidden_parent path))"

text \<open>
  \<^verbatim>\<open>get_active_paths\<close>. The result \<open>None\<close> is Python's \<^verbatim>\<open>None\<close> of a call that falls off
  the end of the function. The second branch compares with \<^verbatim>\<open>Subset.CURRENT\<close>; it reads
  the launch snapshot of the user through \<open>lti_at\<close>.
\<close>

definition get_active_paths ::
  "(string \<Rightarrow> string) \<Rightarrow> (string \<Rightarrow> error + lti_state) \<Rightarrow> machine \<Rightarrow>
   string \<Rightarrow> (string \<times> string list) list \<Rightarrow> Content \<Rightarrow> Subset \<Rightarrow> error + string list option" where
  "get_active_paths shake_256_hex8 lti_at m user_name groups content subset_arg =
     (if subset_arg = Subset_ALL \<or> subset_arg = Subset_ACTIVE then
        bind_err (base_paths_of m (owned_groups user_name groups))
              (\<lambda>base_paths.
                 Inr (Some (sort (map path_str
                   (concat (map (\<lambda>base_path.
                      filter (keep_active (root m) content) (candidate_paths (root m) content base_path))
                    base_paths))))))
      else if content = COURSES then
        bind_err (Subset_attr ''CURRENT'')
          (\<lambda>current.
             if subset_arg = current then
               bind_err (lti_at (''/opt/kore/runtime/lti_'' @ user_name @ ''.json''))
                 (\<lambda>lti. bind_err (make_course_id shake_256_hex8 lti)
                    (\<lambda>(course_id, title_long, title_short, grader_user).
                       Inr (Some [''/home/'' @ grader_user @ ''/course_data''])))
             else Inr None)
      else Inr None)"

text \<open>
  \<^verbatim>\<open>get_backed_up_paths\<close>, rooted at \<^verbatim>\<open>/var/lib/private/<user_name>\<close>; the user name is
  taken to be one path component.
\<close>

definition source_dirs :: "node \<Rightarrow> string list \<Rightarrow> string list list" where
  "source_dirs r base_dir =
     filter (is_dir r)
       (filter (is_dir r) (map (\<lambda>backup. backup @ [''source'']) (glob_dirs r base_dir)))"

definition get_backed_up_paths :: "machine \<Rightarrow> string \<Rightarrow> Content \<Rightarrow> string list" where
  "get_backed_up_paths m user_name content =
     (let r = root m; base_dir = [''var'', ''lib'', ''private'', user_name]
      in sort (map path_str
           (case content of
              COURSES \<Rightarrow>
                filter (\<lambda>path. is_dir r path \<and> \<not> hidden_parent path \<and> \<not> prefix ''.'' (last path))
                  (glob_dirs r base_dir)
            | ASSIGNMENTS \<Rightarrow>
                concat (map (\<lambda>source_path.
                  filter (\<lambda>assignment_path. is_dir r assignment_path \<and> \<not> prefix ''.'' (last assignment_path))
                    (glob_dirs r source_path))
                  (source_dirs r base_dir))
            | PROBLEMS \<Rightarrow>
                concat (map (\<lambda>source_path.
                  filter (\<lambda>problem_path. is_file r problem_path \<and> \<not> hidden_parent problem_path)
                    (rglob_ipynb r source_path))
                  (source_dirs r base_dir)))))"

section \<open>The Name Deduplicator\<close>

text \<open>\<^verbatim>\<open>load_info\<close>: the operating-system errors of \<^verbatim>\<open>load_json\<close> become \<open>InfoFileError\<close>.\<close>

definition load_info :: "machine \<Rightarrow> string \<Rightarrow> error + (string \<rightharpoonup> string)" where
  "load_info m path =
     (case json_at m path of
        Inl e \<Rightarrow> if e = FileNotFoundError \<or> e = PermissionError then Inl InfoFileError else Inl e
      | Inr info \<Rightarrow> Inr info)"

text \<open>The label of one active path (the body of the first loop of \<^verbatim>\<open>generate_unique_names\<close>).\<close>

definition active_name :: "machine \<Rightarrow> Content \<Rightarrow> string \<Rightarrow> error + string" where
  "active_name m content active_path =
     bind_err (index_py (split_py ''/'' active_path) 2)
       (\<lambda>user_name.
          bind_err (load_info m (''/home/'' @ user_name @ ''/course_data/info.json''))
            (\<lambda>info.
               case info ''title_short'' of
                 None \<Rightarrow> Inl KeyError
               | Some title_short \<Rightarrow>
                   (case content of
                      COURSES \<Rightarrow> Inr title_short
                    | ASSIGNMENTS \<Rightarrow>
                        bind_err (index_py (split_py ''/'' (removesuffix_py ''/'' active_path)) (- 1))
                          (\<lambda>name. Inr (name @ '' ('' @ title_short @ '')''))
                    | PROBLEMS \<Rightarrow>
                        bind_err (index_py (split_py ''/'' (removesuffix_py ''.ipynb'' active_path)) (- 1))
                          (\<lambda>stem.
                             bind_err (index_py (split_py ''/'' (removesuffix_py ''/'' active_path)) (- 2))
                               (\<lambda>assignment.
                                  Inr (stem @ '' ('' @ title_short @ '', '' @ assignment @ '')''))))))"

text \<open>The label of one backed-up path.\<close>

definition backed_up_name :: "Content \<Rightarrow> string \<Rightarrow> error + string" where
  "backed_up_name content path =
     (case content of
        COURSES \<Rightarrow>
          bind_err (index_py (split_py ''/'' path) (- 1)) (\<lambda>name. Inr (name @ '' (Backup)''))
      | ASSIGNMENTS \<Rightarrow>
          bind_err (index_py (split_py ''/'' path) (- 1))
            (\<lambda>name.
               bind_err (index_py (split_py ''/'' path) (- 3))
                 (\<lambda>course. Inr (name @ '' (Backup, '' @ course @ '')'')))
      | PROBLEMS \<Rightarrow>
          bind_err (index_py (split_py ''/'' (removesuffix_py ''.ipynb'' path)) (- 1))
            (\<lambda>stem.
               bind_err (index_py (split_py ''/'' path) (- 4))
                 (\<lambda>course.
                    bind_err (index_py (split_py ''/'' path) (- 2))
                      (\<lambda>assignment.
                         Inr (stem @ '' (Backup, '' @ course @ '', '' @ assignment @ '')'')))))"

text \<open>
  \<^verbatim>\<open>np.unique(content_names, return_counts=True)\<close>: the sorted distinct labels and how often
  each occurs.
\<close>

definition np_unique :: "string list \<Rightarrow> string list \<times> nat list" where
  "np_unique content_names =
     (let unique_array = remdups (sort content_names)
      in (unique_array, map (count_list content_names) unique_array))"

text \<open>
  The body of the last loop, for one of the two label lists. When a label repeats, the
  next statement is \<^verbatim>\<open>counts = dict(Counter[content_names])\<close>, where \<^verbatim>\<open>Counter\<close> is the
  name imported from \<^verbatim>\<open>typing\<close> and the list is a subscript, not an argument: the
  statement raises \<open>TypeError\<close>, and the comprehension after it is never reached.
\<close>

definition unique_names_of :: "string list \<Rightarrow> error + string list" where
  "unique_names_of content_names =
     (case np_unique content_names of
        (unique_array, unique_count) \<Rightarrow>
          if \<not> list_all (\<lambda>c. c = 1) unique_count then Inl TypeError
          else Inr (map (replace_py ''_'' '' '') content_names))"

text \<open>\<^verbatim>\<open>generate_unique_names\<close>; \<open>None\<close> is the default of the optional third argument.\<close>

definition generate_unique_names ::
  "machine \<Rightarrow> Content \<Rightarrow> string list \<Rightarrow> string list option \<Rightarrow> error + string list" where
  "generate_unique_names m content active_paths backed_up_paths =
     bind_err (map_err (active_name m content) active_paths)
       (\<lambda>active_names.
          let given = (case backed_up_paths of None \<Rightarrow> False | Some ps \<Rightarrow> ps \<noteq> [])
          in bind_err
               (if given then map_err (backed_up_name content) (case backed_up_paths of None \<Rightarrow> [] | Some ps \<Rightarrow> ps)
                else Inr [])
               (\<lambda>backed_up_names.
                  bind_err
                    (map_err unique_names_of
                       (if given then [active_names, backed_up_names] else [active_names]))
                    (\<lambda>parts. Inr (concat parts))))"

section \<open>The Lifecycle Orchestrator: reset and delete\<close>

text \<open>A response of a route: the status code and the \<^verbatim>\<open>message\<close> field of its JSON body.\<close>

record response =
  status :: nat
  message :: string

text \<open>
  What \<^verbatim>\<open>LTIFileReader\<close> hands to a route after \<^verbatim>\<open>read_file\<close> and \<^verbatim>\<open>extract_values\<close>. The
  class lives in \<^verbatim>\<open>models/lti_file_reader.py\<close>, which is not among the sources; the
  routes take it as a parameter that maps the user name either to the reader's
  \<^verbatim>\<open>error_response\<close> or to the values read.
\<close>

record lti_values =
  lti :: lti_state
  course_id :: string
  course_title :: string
  grader_user :: string

text \<open>\<^verbatim>\<open>get_hub_base_url\<close>.\<close>

definition get_hub_base_url :: "lti_state \<Rightarrow> error + string" where
  "get_hub_base_url lti_st =
     (case target_link_uri lti_st of
        None \<Rightarrow> Inl KeyError
      | Some uri \<Rightarrow>
          bind_err (index_py (split_py ''://'' (strip_py ''/'' uri)) (- 1))
            (\<lambda>rest.
               let base_url = join_py ''/'' (drop 1 (split_py ''/'' rest)) @ ''/''
               in Inr (if base_url = ''/'' then [] else base_url)))"

text \<open>
  The \<^verbatim>\<open>with Gradebook(url) as gb\<close> block: the ids of all students are collected and every
  student is removed. Opening the database may raise.
\<close>

definition remove_students :: "string \<Rightarrow> world \<Rightarrow> (error + string list) \<times> world" where
  "remove_students url w =
     (case gradebooks w url of
        Inl e \<Rightarrow> (Inl e, w)
      | Inr usernames \<Rightarrow> (Inr usernames, w\<lparr>gradebooks := (gradebooks w)(url := Inr [])\<rparr>))"

text \<open>The command that asks the hub to remove the users from the \<^verbatim>\<open>nbgrader\<close> group of a course.\<close>

definition curl_remove_users :: "(string list \<Rightarrow> string) \<Rightarrow> string \<Rightarrow> string \<Rightarrow> string \<Rightarrow> string list \<Rightarrow> string list" where
  "curl_remove_users json_dumps kore_token base_url cid usernames =
     [''systemd-run'', ''curl'',
      ''-H'', ''Content-Type: application/json'',
      ''-H'', ''Accept: application/json'',
      ''-H'', ''Authorization: token '' @ kore_token,
      ''-X'', ''DELETE'',
      ''-d'', ''{'' @ [dquote] @ ''users'' @ [dquote] @ '':'' @ json_dumps usernames @ ''}'',
      ''http://127.0.0.1:8081/'' @ base_url @ ''hub/api/groups/nbgrader-'' @ cid @ ''/users'']"

text \<open>
  A \<^verbatim>\<open>try\<close> block of the routes around one command with \<^verbatim>\<open>check=True\<close>: a
  \<open>CalledProcessError\<close> is logged and answered with status 500, and the route returns;
  otherwise the route goes on with \<open>k\<close>.
\<close>

definition guarded_run ::
  "string \<Rightarrow> string list \<Rightarrow> world \<Rightarrow> (world \<Rightarrow> (error + response) \<times> world) \<Rightarrow> (error + response) \<times> world" where
  "guarded_run msg cmd w k =
     (case run cmd True (logging ''DEBUG'' msg w) of
        (Inl e, w') \<Rightarrow>
          if e = CalledProcessError then
            (Inr \<lparr>status = 500, message = ''CalledProcessError''\<rparr>,
             logging ''ERROR'' ''Command cannot be executed!'' w')
          else (Inl e, w')
      | (Inr u, w') \<Rightarrow> k w')"

text \<open>The loop over the four working directories in the \<^verbatim>\<open>PATCH\<close> branch.\<close>

fun remove_directories :: "string \<Rightarrow> string list \<Rightarrow> world \<Rightarrow> (error + response) \<times> world" where
  "remove_directories grader [] w =
     (Inr \<lparr>status = 200, message = ''Selected course reset successfully!''\<rparr>, w)"
| "remove_directories grader (directory # rest) w =
     guarded_run (''Executing: rm -rf /home/'' @ grader @ ''/course_data/'' @ directory @ ''/'')
       [''rm'', ''-rf'', ''/home/'' @ grader @ ''/course_data/'' @ directory @ ''/''] w
       (remove_directories grader rest)"

text \<open>
  The \<^verbatim>\<open>PATCH\<close> branch of \<^verbatim>\<open>courses\<close> (reset of the current course). \<open>request_json\<close> is the
  JSON body of the request, \<open>json_dumps\<close> is \<^verbatim>\<open>json.dumps\<close> on a list of names. An
  exception that no handler of the route catches is the \<open>Inl\<close> result.
\<close>

definition courses_PATCH ::
  "(string list \<Rightarrow> string) \<Rightarrow> (string \<Rightarrow> response + lti_values) \<Rightarrow> string \<Rightarrow>
   (string \<rightharpoonup> string) \<Rightarrow> world \<Rightarrow> (error + response) \<times> world" where
  "courses_PATCH json_dumps lti_file_reader kore_token request_json w0 =
     (case request_json ''user'' of
        None \<Rightarrow>
          (Inr \<lparr>status = 500, message = ''KeyError''\<rparr>,
           logging ''ERROR'' ''Request key is not in form!'' w0)
      | Some user_name \<Rightarrow>
          (let w1 = logging ''INFO'' (''User '' @ user_name @ '' is resetting current course.'')
                      (logging ''DEBUG'' (''User: '' @ user_name) w0)
           in case lti_file_reader user_name of
                Inl error_response \<Rightarrow> (Inr error_response, w1)
              | Inr v \<Rightarrow>
                  (case remove_students (''sqlite:////home/'' @ grader_user v @ ''/course_data/gradebook.db'') w1 of
                     (Inl e, w2) \<Rightarrow> (Inl e, w2)
                   | (Inr usernames, w2) \<Rightarrow>
                       (case get_hub_base_url (lti v) of
                          Inl e \<Rightarrow> (Inl e, w2)
                        | Inr base_url \<Rightarrow>
                            (let w3 = logging ''DEBUG''
                                        (''Removing all students from nbgrader group of course '' @ course_id v @ ''.'') w2;
                                 w4 = snd (run (curl_remove_users json_dumps kore_token base_url (course_id v) usernames)
                                             False w3)
                             in guarded_run (''Executing: rm -rf /opt/nbgrader_exchange/'' @ course_id v @ ''/'')
                                  [''rm'', ''-rf'', ''/opt/nbgrader_exchange/'' @ course_id v @ ''/''] w4
                                  (\<lambda>w5.
                                     guarded_run (''Executing: rm /home/'' @ grader_user v @ ''/course_data/gradebook.db'')
                                       [''rm'', ''/home/'' @ grader_user v @ ''/course_data/gradebook.db''] w5
                                       (remove_directories (grader_user v)
                                          [''autograded'', ''feedback'', ''release'', ''submitted''])))))))"

text \<open>
  \<^verbatim>\<open>handle_clean_up\<close> of \<^verbatim>\<open>misc/utils.py\<close>: the same steps in one \<^verbatim>\<open>try\<close> block, every
  command with \<^verbatim>\<open>check=True\<close>. Its \<^verbatim>\<open>except\<close> clause names a list of classes, not a
  tuple, so matching any exception against it raises \<open>TypeError\<close>.
\<close>

fun run_all :: "string list list \<Rightarrow> world \<Rightarrow> (error + unit) \<times> world" where
  "run_all [] w = (Inr (), w)"
| "run_all (cmd # cmds) w =
     (case run cmd True w of (Inl e, w') \<Rightarrow> (Inl e, w') | (Inr u, w') \<Rightarrow> run_all cmds w')"

definition handle_clean_up ::
  "(string list \<Rightarrow> string) \<Rightarrow> string \<Rightarrow> string \<Rightarrow> string \<Rightarrow> string \<Rightarrow> world \<Rightarrow> (error + unit) \<times> world" where
  "handle_clean_up json_dumps path kore_token base_url cid w0 =
     (case (case remove_students (''sqlite:///'' @ path @ ''/gradebook.db'') w0 of
              (Inl e, w1) \<Rightarrow> (Inl e, w1)
            | (Inr usernames, w1) \<Rightarrow>
                run_all
                  ([curl_remove_users json_dumps kore_token base_url cid usernames,
                    [''rm'', ''-rf'', ''/opt/nbgrader_exchange/'' @ cid @ ''/''],
                    [''rm'', path @ ''/gradebook.db'']]
                   @ map (\<lambda>directory. [''rm'', ''-rf'', path @ ''/'' @ directory @ ''/''])
                       [''autograded'', ''feedback'', ''release'', ''submitted''])
                  w1) of
        (Inl e, w') \<Rightarrow> (Inl TypeError, w')
      | (Inr u, w') \<Rightarrow> (Inr (), w'))"




section \<open>Example inputs\<close>

text \<open>
  A machine whose registry file \<^verbatim>\<open>/opt/reg.py\<close> holds an earlier text and is neither
  readable nor writable for the process, and on which every \<^verbatim>\<open>chmod\<close> fails.
\<close>

definition locked_world :: world where
  "locked_world =
     \<lparr>files = [''/opt/reg.py'' \<mapsto> \<lparr>contents = ''# old'', readable = False, writable = False\<rparr>],
      creatable = (\<lambda>p. True),
      run_fails = (\<lambda>cmd. take 1 cmd = [''chmod'']),
      executed = [],
      gradebooks = (\<lambda>url. Inr []),
      log = []\<rparr>"

text \<open>A machine without a registry file, on which the file can be created; \<^verbatim>\<open>chmod\<close> fails.\<close>

definition chmod_failing_world :: world where
  "chmod_failing_world =
     \<lparr>files = Map.empty,
      creatable = (\<lambda>p. True),
      run_fails = (\<lambda>cmd. take 1 cmd = [''chmod'']),
      executed = [],
      gradebooks = (\<lambda>url. Inr []),
      log = []\<rparr>"


text \<open>
  A directory tree with one course account \<^verbatim>\<open>c-1\<close> whose source directory holds an
  assignment and the checkpoint directories that the notebook server leaves behind, an
  account \<^verbatim>\<open>demo\<close> with a course, and the backup area of user \<^verbatim>\<open>u1\<close>.
\<close>

definition example_tree :: node where
  "example_tree =
     Dir 0
       [(''home'', Dir 0
           [(''c-1'', Dir 1001
               [(''course_data'', Dir 1001
                   [(''source'', Dir 1001
                       [(''hw1'', Dir 1001
                           [(''p1.ipynb'', File),
                            (''.ipynb_checkpoints'', Dir 1001 [(''p1-checkpoint.ipynb'', File)])]),
                        (''.ipynb_checkpoints'', Dir 1001 [])])])]),
            (''demo'', Dir 1002 [(''course_data'', Dir 1002 [])])]),
        (''var'', Dir 0
           [(''lib'', Dir 0
               [(''private'', Dir 0
                   [(''u1'', Dir 2001
                       [(''b1'', Dir 2001
                           [(''source'', Dir 2001 [(''hw1'', Dir 2001 [(''.secret.ipynb'', File)])])]),
                        (''.trash'', Dir 2001
                           [(''source'', Dir 2001 [(''hw0'', Dir 2001 [])])])])])])])]"

text \<open>
  The machine with that tree. The courses of the accounts \<^verbatim>\<open>c-1\<close> and \<^verbatim>\<open>c-2\<close> both have
  the short title \<^verbatim>\<open>Foo\<close>, the course of \<^verbatim>\<open>c-3\<close> has \<^verbatim>\<open>Bar\<close>.
\<close>

definition example_machine :: machine where
  "example_machine =
     \<lparr>root = example_tree,
      group_db = [0 \<mapsto> ''root'', 1001 \<mapsto> ''c-1'', 1002 \<mapsto> ''demo'', 2001 \<mapsto> ''u1''],
      json_at =
        (\<lambda>p. if p = ''/home/c-1/course_data/info.json'' \<or> p = ''/home/c-2/course_data/info.json''
              then Inr [''title_short'' \<mapsto> ''Foo'']
              else if p = ''/home/c-3/course_data/info.json'' then Inr [''title_short'' \<mapsto> ''Bar'']
              else Inl FileNotFoundError)\<rparr>"

text \<open>A reader of launch snapshots that finds the course \<^verbatim>\<open>c-1\<close> for every user.\<close>

definition example_reader :: "string \<Rightarrow> response + lti_values" where
  "example_reader user_name =
     Inr \<lparr>lti = \<lparr>deployment_id = Some ''1'',
                 resource_link_claim = Some \<lparr>rl_id = Some ''r1'', rl_title = Some ''A1''\<rparr>,
                 context_title = Some ''C'',
                 target_link_uri = Some ''https://hub.example.org/''\<rparr>,
          course_id = ''c-1'', course_title = ''C - A1 (c-1)'', grader_user = ''c-1''\<rparr>"

text \<open>
  A machine on which the call to the hub (the command started through
  \<^verbatim>\<open>systemd-run\<close>) exits with a non-zero status and every other command succeeds; the
  gradebook of \<^verbatim>\<open>c-1\<close> has the students \<^verbatim>\<open>s1\<close> and \<^verbatim>\<open>s2\<close>.
\<close>

definition hub_failing_world :: world where
  "hub_failing_world =
     \<lparr>files = [''/home/c-1/course_data/gradebook.db'' \<mapsto> \<lparr>contents = ''db'', readable = True, writable = True\<rparr>],
      creatable = (\<lambda>p. True),
      run_fails = (\<lambda>cmd. take 1 cmd = [''systemd-run'']),
      executed = [],
      gradebooks = (\<lambda>url. Inr [''s1'', ''s2'']),
      log = []\<rparr>"

text \<open>A stand-in for \<^verbatim>\<open>json.dumps\<close> on names without special characters.\<close>

definition dumps_names :: "string list \<Rightarrow> string" where
  "dumps_names names = ''['' @ join_py '', '' (map (\<lambda>n. [dquote] @ n @ [dquote]) names) @ '']''"


section \<open>Error handling of the registry store\<close>

lemma open_write_logging:
  "open_write path (logging l m w) = map_sum id (logging l m) (open_write path w)"
  by (simp add: open_write_def logging_def split: option.splits)

text \<open>
  Claim C10. If opening the registry file for writing raises \<open>PermissionError\<close>,
  \<^verbatim>\<open>write_autogenerated_config\<close> returns normally: nothing is raised, the files are as
  before, no command is run, and the only change is two lines in the log. The caller
  sees a successful save while the file still holds the earlier text.
\<close>

theorem write_swallows_permission_error:
  assumes "open_write path w = Inl PermissionError"
  shows "write_autogenerated_config path services roles groups w =
           (Inr (),
            w\<lparr>log := log w @ [(''DEBUG'', ''Writing autogenerated service configuration.''),
                              (''DEBUG'', ''Autogenerated services files not readable!'')]\<rparr>)"
proof -
  have "open_write path (logging ''DEBUG'' ''Writing autogenerated service configuration.'' w)
          = Inl PermissionError"
    using assms by (simp add: open_write_logging)
  then have "write_autogenerated_config path services roles groups w =
      (Inr (), logging ''DEBUG'' ''Autogenerated services files not readable!''
                 (logging ''DEBUG'' ''Writing autogenerated service configuration.'' w))"
    by (simp add: write_autogenerated_config_def write_handlers_def Let_def)
  then show ?thesis
    by (simp add: logging_def)
qed

theorem write_swallows_permission_error_witness:
  "open_write ''/opt/reg.py'' locked_world = Inl PermissionError
   \<and> fst (write_autogenerated_config ''/opt/reg.py'' [PDict [(''name'', PStr ''c-1'')]] [] [] locked_world) = Inr ()
   \<and> files (snd (write_autogenerated_config ''/opt/reg.py'' [PDict [(''name'', PStr ''c-1'')]] [] [] locked_world)) ''/opt/reg.py''
       = Some \<lparr>contents = ''# old'', readable = False, writable = False\<rparr>"
proof -
  have h: "open_write ''/opt/reg.py'' locked_world = Inl PermissionError"
    by (simp add: open_write_def locked_world_def)
  show ?thesis
    using h write_swallows_permission_error [OF h, of "[PDict [(''name'', PStr ''c-1'')]]" "[]" "[]"]
    by (simp add: locked_world_def)
qed

text \<open>
  Claim C6, as amended. If the file opens for writing and the \<^verbatim>\<open>chmod 600\<close> that follows
  the write exits with a non-zero status, \<^verbatim>\<open>write_autogenerated_config\<close> logs the error
  and raises \<open>AutogeneratedFileError\<close> to its caller; the file holds the complete new
  text. The log gains the line of the start of the save and the error line of the
  handler, and \<^verbatim>\<open>chmod\<close> is the one command that was run.
\<close>

theorem write_chmod_failure_raises:
  assumes "open_write path w = Inr w'"
    and "run_fails w [''chmod'', ''600'', path]"
  shows "fst (write_autogenerated_config path services roles groups w) = Inl AutogeneratedFileError
         \<and> map_option contents (files (snd (write_autogenerated_config path services roles groups w)) path)
             = Some (compose_config_code services roles groups)
         \<and> log (snd (write_autogenerated_config path services roles groups w))
             = log w @ [(''DEBUG'', ''Writing autogenerated service configuration.''),
                        (''ERROR'', ''Command cannot be executed!'')]
         \<and> executed (snd (write_autogenerated_config path services roles groups w))
             = executed w @ [[''chmod'', ''600'', path]]"
  using assms
  by (auto simp: write_autogenerated_config_def open_write_logging write_handlers_def logging_def
      run_def file_write_def open_write_def Let_def split: option.splits if_splits)

theorem write_chmod_failure_raises_witness:
  "open_write ''/opt/reg.py'' chmod_failing_world \<noteq> Inl PermissionError
   \<and> run_fails chmod_failing_world [''chmod'', ''600'', ''/opt/reg.py'']
   \<and> fst (write_autogenerated_config ''/opt/reg.py'' [] [] [(''formgrade-c-1'', PList [PStr ''u1''])]
            chmod_failing_world) = Inl AutogeneratedFileError
   \<and> map_option contents
        (files (snd (write_autogenerated_config ''/opt/reg.py'' [] [] [(''formgrade-c-1'', PList [PStr ''u1''])]
                       chmod_failing_world)) ''/opt/reg.py'')
       = Some (compose_config_code [] [] [(''formgrade-c-1'', PList [PStr ''u1''])])
   \<and> log (snd (write_autogenerated_config ''/opt/reg.py'' [] [] [(''formgrade-c-1'', PList [PStr ''u1''])]
                  chmod_failing_world))
       = [(''DEBUG'', ''Writing autogenerated service configuration.''),
          (''ERROR'', ''Command cannot be executed!'')]
   \<and> executed (snd (write_autogenerated_config ''/opt/reg.py'' [] [] [(''formgrade-c-1'', PList [PStr ''u1''])]
                       chmod_failing_world))
       = [[''chmod'', ''600'', ''/opt/reg.py'']]"
proof -
  have h1: "open_write ''/opt/reg.py'' chmod_failing_world =
      Inr (chmod_failing_world\<lparr>files := [''/opt/reg.py'' \<mapsto> \<lparr>contents = [], readable = True, writable = True\<rparr>]\<rparr>)"
    by (simp add: open_write_def chmod_failing_world_def)
  have h2: "run_fails chmod_failing_world [''chmod'', ''600'', ''/opt/reg.py'']"
    by (simp add: chmod_failing_world_def)
  show ?thesis
    using h1 h2 write_chmod_failure_raises [OF h1 h2, of "[]" "[]" "[(''formgrade-c-1'', PList [PStr ''u1''])]"]
    by (simp add: chmod_failing_world_def)
qed

text \<open>
  The claim as the specification states it (a failed permission tightening still is a
  successful save) fails: on a machine where the file can be written and \<^verbatim>\<open>chmod\<close>
  fails, the save raises.
\<close>

theorem write_chmod_failure_counterexample:
  "open_write ''/opt/reg.py'' chmod_failing_world \<noteq> Inl PermissionError
   \<and> run_fails chmod_failing_world [''chmod'', ''600'', ''/opt/reg.py'']
   \<and> fst (write_autogenerated_config ''/opt/reg.py'' [] [] [] chmod_failing_world) \<noteq> Inr ()"
  by (simp add: write_autogenerated_config_def write_handlers_def logging_def
      run_def file_write_def open_write_def Let_def chmod_failing_world_def)

text \<open>
  Claim C7. The registry file exists and is unreadable, and the \<^verbatim>\<open>chmod 600\<close> of the
  repair fails. The claim asks for \<open>AutogeneratedFileError\<close>; the load lets
  \<open>CalledProcessError\<close> escape, since the command runs inside the handler of
  \<open>PermissionError\<close>, where the clause for \<open>CalledProcessError\<close> does not apply.
\<close>

theorem read_chmod_failure_escapes:
  "open_read ''/opt/reg.py'' locked_world = Inl PermissionError
   \<and> run_fails locked_world [''chmod'', ''600'', ''/opt/reg.py'']
   \<and> fst (read_autogenerated_config ''/opt/reg.py'' locked_world) = Inl CalledProcessError"
  by (simp add: read_autogenerated_config_def open_read_def logging_def run_def Let_def locked_world_def)

section \<open>The Path Resolver and the Name Deduplicator\<close>

text \<open>
  Where the rest of a group name starts with a character outside the stripped set, as
  the course ids \<^verbatim>\<open>c-...\<close> of \<^verbatim>\<open>make_course_id\<close> do, \<^verbatim>\<open>lstrip\<close> removes the prefix only.
\<close>

lemma lstrip_formgrade_course:
  "c \<notin> set ''formgrade-'' \<Longrightarrow> lstrip_py ''formgrade-'' (''formgrade-'' @ c # rest) = c # rest"
  by (simp add: lstrip_py_def)

text \<open>
  Claim C8. The claim asks that exactly the prefix \<^verbatim>\<open>formgrade-\<close> is removed from every
  group name. For the group \<^verbatim>\<open>formgrade-demo\<close> the resolver computes the empty name, where
  removing the prefix gives \<^verbatim>\<open>demo\<close>; the course of the account \<^verbatim>\<open>demo\<close>, whose home
  directory belongs to the group \<^verbatim>\<open>demo\<close>, is then missing from the active paths of a
  member of \<^verbatim>\<open>formgrade-demo\<close>.
\<close>

theorem owned_groups_strips_too_much:
  "owned_groups ''alice'' [(''formgrade-demo'', [''alice''])] = ['''']
   \<and> removeprefix_py ''formgrade-'' ''formgrade-demo'' = ''demo''
   \<and> get_active_paths shake_256_hex8 lti_at example_machine ''alice'' [(''formgrade-demo'', [''alice''])]
        COURSES Subset_ACTIVE = Inr (Some [])"
  by (simp add: owned_groups_def lstrip_py_def removeprefix_py_def get_active_paths_def
      base_paths_of_def bind_err_def example_machine_def example_tree_def is_dir_def entries_of_def)

text \<open>
  Claim C9. The class \<^verbatim>\<open>Subset\<close> has no member \<^verbatim>\<open>CURRENT\<close>. The only scope that passes
  the first test of \<^verbatim>\<open>get_active_paths\<close> is \<^verbatim>\<open>Subset.OTHER\<close>; for courses the comparison
  with \<^verbatim>\<open>Subset.CURRENT\<close> then raises \<open>AttributeError\<close>, whatever the user and the
  snapshot, and for the other kinds the function returns \<^verbatim>\<open>None\<close>. The claim asks for
  exactly one path.
\<close>

theorem current_scope_unreachable:
  "Subset_attr ''CURRENT'' = Inl AttributeError
   \<and> get_active_paths shake_256_hex8 lti_at m user_name groups COURSES Subset_OTHER = Inl AttributeError
   \<and> get_active_paths shake_256_hex8 lti_at m user_name groups ASSIGNMENTS Subset_OTHER = Inr None
   \<and> get_active_paths shake_256_hex8 lti_at m user_name groups PROBLEMS Subset_OTHER = Inr None"
  by (simp add: get_active_paths_def Subset_attr_def bind_err_def)

text \<open>
  Claim C2. The claim asks that no returned path has a component that starts with a
  dot. On the example tree the active assignments include the directory
  \<^verbatim>\<open>.ipynb_checkpoints\<close>, the backed-up assignments include one below the hidden backup
  \<^verbatim>\<open>.trash\<close>, and the backed-up problems include the hidden notebook \<^verbatim>\<open>.secret.ipynb\<close>.
\<close>

theorem hidden_paths_returned:
  "get_active_paths shake_256_hex8 lti_at example_machine ''u1'' [(''formgrade-c-1'', [''u1''])]
        ASSIGNMENTS Subset_ACTIVE
     = Inr (Some [''/home/c-1/course_data/source/.ipynb_checkpoints'',
                  ''/home/c-1/course_data/source/hw1''])
   \<and> get_backed_up_paths example_machine ''u1'' ASSIGNMENTS
     = [''/var/lib/private/u1/.trash/source/hw0'', ''/var/lib/private/u1/b1/source/hw1'']
   \<and> get_backed_up_paths example_machine ''u1'' PROBLEMS
     = [''/var/lib/private/u1/b1/source/hw1/.secret.ipynb'']"
proof -
  have a: "get_active_paths shake_256_hex8 lti_at example_machine ''u1'' [(''formgrade-c-1'', [''u1''])]
        ASSIGNMENTS Subset_ACTIVE
     = Inr (Some [''/home/c-1/course_data/source/.ipynb_checkpoints'',
                  ''/home/c-1/course_data/source/hw1''])"
    by (simp add: get_active_paths_def owned_groups_def lstrip_py_def base_paths_of_def bind_err_def
        candidate_paths_def keep_active_def exists_def glob_dirs_def entries_of_def is_dir_def
        example_machine_def example_tree_def path_str_def Let_def less_eq_char_def less_char_def)
  have b: "get_backed_up_paths example_machine ''u1'' ASSIGNMENTS
     = [''/var/lib/private/u1/.trash/source/hw0'', ''/var/lib/private/u1/b1/source/hw1'']"
    by (simp add: get_backed_up_paths_def source_dirs_def glob_dirs_def entries_of_def is_dir_def
        example_machine_def example_tree_def path_str_def Let_def)
  have c: "get_backed_up_paths example_machine ''u1'' PROBLEMS
     = [''/var/lib/private/u1/b1/source/hw1/.secret.ipynb'']"
    by (simp add: get_backed_up_paths_def source_dirs_def glob_dirs_def entries_of_def is_dir_def
        is_file_def rglob_ipynb_def hidden_parent_def suffix_to_prefix
        example_machine_def example_tree_def path_str_def Let_def)
  from a b c show ?thesis by simp
qed

text \<open>
  Claim C3. The three active courses have the labels \<^verbatim>\<open>Foo\<close>, \<^verbatim>\<open>Foo\<close>, \<^verbatim>\<open>Bar\<close>. The claim
  asks for \<^verbatim>\<open>Foo\<close>, \<^verbatim>\<open>Foo (1)\<close>, \<^verbatim>\<open>Bar\<close>; the call raises \<open>TypeError\<close> and returns no
  list.
\<close>

theorem duplicate_labels_raise:
  "map_err (active_name example_machine COURSES)
     [''/home/c-1/course_data'', ''/home/c-2/course_data'', ''/home/c-3/course_data'']
     = Inr [''Foo'', ''Foo'', ''Bar'']
   \<and> generate_unique_names example_machine COURSES
        [''/home/c-1/course_data'', ''/home/c-2/course_data'', ''/home/c-3/course_data''] None
       = Inl TypeError"
  by code_simp

text \<open>Labels that do not repeat come back in their order, with underscores as spaces.\<close>

lemma count_list_distinct:
  "distinct xs \<Longrightarrow> x \<in> set xs \<Longrightarrow> count_list xs x = 1"
  by (induction xs) auto

lemma unique_names_of_distinct:
  assumes "distinct content_names"
  shows "unique_names_of content_names = Inr (map (replace_py ''_'' '' '') content_names)"
proof -
  have "\<forall>x \<in> set (remdups (sort content_names)). count_list content_names x = 1"
    using assms by (simp add: count_list_distinct)
  then show ?thesis
    by (simp add: unique_names_of_def np_unique_def Let_def list_all_iff)
qed

section \<open>Reset and delete\<close>

text \<open>
  Claim C4. The claim asks that a failure of any step of the reset stops the sequence
  and is reported. On a machine where the call to the hub exits with a non-zero status,
  the \<^verbatim>\<open>PATCH\<close> branch runs all the later removals and answers with status 200: the call
  is made without \<^verbatim>\<open>check=True\<close> and outside any \<^verbatim>\<open>try\<close> block.
\<close>

theorem reset_ignores_hub_failure:
  "run_fails hub_failing_world
     (curl_remove_users dumps_names ''token'' [] ''c-1'' [''s1'', ''s2''])
   \<and> fst (courses_PATCH dumps_names example_reader ''token'' [''user'' \<mapsto> ''u1''] hub_failing_world)
       = Inr \<lparr>status = 200, message = ''Selected course reset successfully!''\<rparr>
   \<and> executed (snd (courses_PATCH dumps_names example_reader ''token'' [''user'' \<mapsto> ''u1''] hub_failing_world))
       = [curl_remove_users dumps_names ''token'' [] ''c-1'' [''s1'', ''s2''],
          [''rm'', ''-rf'', ''/opt/nbgrader_exchange/c-1/''],
          [''rm'', ''/home/c-1/course_data/gradebook.db''],
          [''rm'', ''-rf'', ''/home/c-1/course_data/autograded/''],
          [''rm'', ''-rf'', ''/home/c-1/course_data/feedback/''],
          [''rm'', ''-rf'', ''/home/c-1/course_data/release/''],
          [''rm'', ''-rf'', ''/home/c-1/course_data/submitted/'']]"
  by code_simp







end
